theory Spec2Isabelle
  imports Main "HOL-Library.Word"
begin

section \<open>Error values\<close>

text \<open>
  The package \<open>errorwrapper\<close> exists in three evolutions of one design:
  \<open>src/v1/errorwrapper_v1.go\<close>, \<open>src/unnamed/part_000\<close> and
  \<open>src/unnamed/part_001\<close>. They share the types \<open>errorString\<close> and
  \<open>errWrapper\<close>, the constructor \<open>New\<close> and the methods \<open>Error\<close> and
  \<open>Unwrap\<close>; they differ in \<open>NewError\<close> and \<open>NewErrorString\<close>.
  Definitions without a suffix embed \<open>part_001\<close> (the recursive variant); the
  suffixes \<open>_v1\<close> and \<open>_part_000\<close> mark the other two.

  A Go value of interface type \<open>error\<close> is one of
  \<^item> \<open>Nil\<close>, the nil interface;
  \<^item> \<open>ErrorString s\<close>, a \<open>*errorString\<close> holding \<open>s\<close>;
  \<^item> \<open>ErrWrapperPtr w\<close>, a non-nil \<open>*errWrapper\<close> pointing at the struct \<open>w\<close>;
  \<^item> \<open>Foreign t a\<close>, an error of a type declared outside the package. The package
    observes such a value in two ways only: by its \<open>Error()\<close> text \<open>t\<close>, and (in
    \<open>v1\<close> and \<open>part_000\<close>) by what the standard library's \<open>errors.As\<close>
    reports for it with a target of type \<open>*errWrapper\<close>, which is the flag \<open>a\<close>.

  The struct \<open>errWrapper\<close> has the fields \<open>err\<close>, \<open>msg\<close>, \<open>prefix\<close> and
  \<open>errJoiner\<close>, in the order of the source. No code of the package assigns to a field
  of a struct after the struct has been returned, so a pointer is identified with the
  value it points at. A \<open>*errWrapper\<close> held in an \<open>error\<close> is never the nil pointer,
  and no \<open>error\<close> holds an \<open>errWrapper\<close> by value: the type is unexported and the
  package only ever returns the address of a struct literal. A Go string is a sequence
  of bytes and so is a \<open>string\<close> of HOL (a list of 8-bit characters); a Go
  \<open>byte\<close> is an \<open>8 word\<close>.
\<close>

datatype error = Nil | ErrorString string | ErrWrapperPtr errWrapper | Foreign string bool
  and errWrapper =
    ErrWrapper (err: error) (msg: string) (prefix: string) (errJoiner: "8 word")

text \<open>The byte written by \<open>strings.Builder.WriteByte\<close>, as a character of the string.\<close>

definition byte_char :: "8 word \<Rightarrow> char" where
  "byte_char b = char_of (unat b)"

definition defaultErrJoiner :: "8 word" where
  "defaultErrJoiner = 0x2E"

definition defaultMsgJoiner :: string where
  "defaultMsgJoiner = '': ''"

text \<open>
  The type assertion \<open>err.(*errWrapper)\<close>: its \<open>ok\<close> result, and the two results
  together (\<open>None\<close> when \<open>ok\<close> is false).
\<close>

fun is_errWrapper :: "error \<Rightarrow> bool" where
  "is_errWrapper (ErrWrapperPtr w) = True"
| "is_errWrapper e = False"

fun as_errWrapper :: "error \<Rightarrow> errWrapper option" where
  "as_errWrapper (ErrWrapperPtr w) = Some w"
| "as_errWrapper e = None"

text \<open>
  A variadic parameter \<open>msg ...string\<close> is the list of the arguments given; the code
  reads \<open>msg[0]\<close> when there is one and keeps the zero value \<open>""\<close> otherwise.
\<close>

fun first_or_empty :: "string list \<Rightarrow> string" where
  "first_or_empty [] = []"
| "first_or_empty (m # ms) = m"

section \<open>The recursive variant (part\_001)\<close>

text \<open>
  \<open>New\<close> (lines 42 to 53). The result is the \<open>*errWrapper\<close> behind the interface
  \<open>ErrorWrapper\<close>; the methods have value receivers, so a factory is the struct.
\<close>

definition New :: "8 word \<Rightarrow> string list \<Rightarrow> errWrapper" where
  "New j pfx =
     (let ew = ErrWrapper Nil [] [] j;
          ew = (if errJoiner ew = 0
                then ErrWrapper (err ew) (msg ew) (prefix ew) defaultErrJoiner else ew);
          ew = (if length pfx \<ge> 1
                then ErrWrapper (err ew) (msg ew) (hd pfx) (errJoiner ew) else ew)
      in ew)"

text \<open>\<open>unwrapRecursively\<close> (lines 57 to 69).\<close>

fun unwrapRecursively :: "error \<Rightarrow> 8 word \<Rightarrow> string \<times> error" where
  "unwrapRecursively (ErrWrapperPtr (ErrWrapper e m p j)) joiner =
     (case unwrapRecursively e joiner of
        (recursivePrefix, underlyingErr) \<Rightarrow>
          (p @ (if p \<noteq> [] \<and> recursivePrefix \<noteq> [] then [byte_char joiner] else [])
             @ recursivePrefix,
           underlyingErr))"
| "unwrapRecursively Nil joiner = ([], Nil)"
| "unwrapRecursively (ErrorString s) joiner = ([], ErrorString s)"
| "unwrapRecursively (Foreign t a) joiner = ([], Foreign t a)"

text \<open>\<open>errWrapper.NewError\<close> (lines 73 to 96).\<close>

definition NewError :: "errWrapper \<Rightarrow> error \<Rightarrow> string list \<Rightarrow> error" where
  "NewError ew e ms =
     (if e = Nil then Nil
      else
        (let tmpMsg = first_or_empty ms in
         case unwrapRecursively e (errJoiner ew) of
           (unwPrefix, undErr) \<Rightarrow>
             ErrWrapperPtr
               (ErrWrapper undErr tmpMsg
                  (prefix ew
                     @ (if prefix ew \<noteq> [] \<and> unwPrefix \<noteq> []
                        then [byte_char (errJoiner ew)] else [])
                     @ unwPrefix)
                  (errJoiner ew))))"

text \<open>
  \<open>errWrapper.NewErrorString\<close> (lines 99 to 112). The struct literal names
  \<open>prefix\<close>, \<open>err\<close> and \<open>msg\<close>; \<open>errJoiner\<close> keeps its zero value.
\<close>

definition NewErrorString :: "errWrapper \<Rightarrow> string \<Rightarrow> string list \<Rightarrow> error" where
  "NewErrorString ew errStr ms =
     (if errStr = [] then Nil
      else
        (let tmpMsg = first_or_empty ms in
         ErrWrapperPtr (ErrWrapper (ErrorString errStr) tmpMsg (prefix ew) 0)))"

text \<open>
  \<open>errWrapper.Error\<close> (lines 115 to 136); the same text in all three variants. The
  call \<open>ew.err.Error()\<close> dispatches on the dynamic type of \<open>ew.err\<close>:
  \<open>errorString.Error\<close> returns the string held, a foreign error its own text.
\<close>

fun Error :: "errWrapper \<Rightarrow> string" where
  "Error (ErrWrapper e m p j) =
     (let isMsgFilled = (m \<noteq> []);
          sb = [];
          sb = (if p \<noteq> [] then sb @ p @ defaultMsgJoiner else sb);
          sb = (if isMsgFilled then sb @ [byte_char 0x5B] @ m @ [byte_char 0x5D] else sb);
          sb = (case e of
                  Nil \<Rightarrow> sb
                | ErrorString s \<Rightarrow> (if isMsgFilled then sb @ [byte_char 0x20] else sb) @ s
                | ErrWrapperPtr w \<Rightarrow>
                    (if isMsgFilled then sb @ [byte_char 0x20] else sb) @ Error w
                | Foreign t a \<Rightarrow> (if isMsgFilled then sb @ [byte_char 0x20] else sb) @ t)
      in sb)"

text \<open>
  \<open>Error()\<close> called on a value of interface type \<open>error\<close>. On the nil interface the
  call panics, which is \<open>None\<close>.
\<close>

fun error_Error :: "error \<Rightarrow> string option" where
  "error_Error Nil = None"
| "error_Error (ErrorString s) = Some s"
| "error_Error (ErrWrapperPtr w) = Some (Error w)"
| "error_Error (Foreign t a) = Some t"

text \<open>\<open>errWrapper.Unwrap\<close> (lines 139 to 141).\<close>

definition Unwrap :: "errWrapper \<Rightarrow> error" where
  "Unwrap ew = err ew"

section \<open>The earlier variants (v1 and part\_000)\<close>

text \<open>
  Both earlier variants guard the merge with \<open>errors.As(err, &errWrapper{})\<close>. The
  target has type \<open>*errWrapper\<close>, so the standard library looks along the
  \<open>Unwrap\<close> chain of \<open>err\<close> for a value whose dynamic type is assignable to the
  struct type \<open>errWrapper\<close>, or whose own \<open>As\<close> method accepts the target. It
  returns false on nil. A \<open>*errWrapper\<close> is a pointer, not assignable to the struct
  type, and has no \<open>As\<close> method, so the search goes on to what its \<open>Unwrap\<close>
  returns. A \<open>*errorString\<close> has neither method and ends the search with false. For
  a foreign error the answer is its flag.
\<close>

fun errors_As_errWrapper :: "error \<Rightarrow> bool" where
  "errors_As_errWrapper Nil = False"
| "errors_As_errWrapper (ErrorString s) = False"
| "errors_As_errWrapper (ErrWrapperPtr (ErrWrapper e m p j)) = errors_As_errWrapper e"
| "errors_As_errWrapper (Foreign t a) = a"

text \<open>
  \<open>errWrapper.NewError\<close> of \<open>src/v1/errorwrapper_v1.go\<close> (lines 60 to 86): the
  message comes first and is not variadic. \<open>wrapped\<close> is the struct of the last
  \<open>return\<close>, reached whenever one of the two guards fails.
\<close>

definition NewError_v1 :: "errWrapper \<Rightarrow> string \<Rightarrow> error \<Rightarrow> error" where
  "NewError_v1 ew m e =
     (let wrapped = ErrWrapperPtr (ErrWrapper e m (prefix ew) 0) in
      if errors_As_errWrapper e then
        (case as_errWrapper e of
           Some j \<Rightarrow>
             if prefix j \<noteq> [] then
               (if prefix ew = [] then ErrWrapperPtr (ErrWrapper (err j) m (prefix j) 0)
                else ErrWrapperPtr
                       (ErrWrapper (err j) m
                          (prefix ew @ [byte_char (errJoiner ew)] @ prefix j) 0))
             else wrapped
         | None \<Rightarrow> wrapped)
      else wrapped)"

text \<open>\<open>errWrapper.NewError\<close> of \<open>src/unnamed/part_000\<close> (lines 60 to 90).\<close>

definition NewError_part_000 :: "errWrapper \<Rightarrow> error \<Rightarrow> string list \<Rightarrow> error" where
  "NewError_part_000 ew e ms =
     (let tmpMsg = first_or_empty ms;
          wrapped = ErrWrapperPtr (ErrWrapper e tmpMsg (prefix ew) 0) in
      if errors_As_errWrapper e then
        (case as_errWrapper e of
           Some j \<Rightarrow>
             if prefix j \<noteq> [] then
               (if prefix ew = [] then ErrWrapperPtr (ErrWrapper (err j) tmpMsg (prefix j) 0)
                else ErrWrapperPtr
                       (ErrWrapper (err j) tmpMsg
                          (prefix ew @ [byte_char (errJoiner ew)] @ prefix j) 0))
             else wrapped
         | None \<Rightarrow> wrapped)
      else wrapped)"

section \<open>Notions of the specification\<close>

text \<open>
  The rendering rule in the words of the specification: the prefix and the separator
  \<open>": "\<close> when the prefix is not empty, then the message in brackets when it is not
  empty, then the display string of the inner error when there is one, after a single
  space when a message was written.
\<close>

definition spec_render :: "string \<Rightarrow> string \<Rightarrow> string option \<Rightarrow> string" where
  "spec_render p m inner =
     (if p = [] then [] else p @ '': '')
     @ (if m = [] then [] else ''['' @ m @ '']'')
     @ (case inner of
          None \<Rightarrow> []
        | Some t \<Rightarrow> (if m = [] then [] else '' '') @ t)"

text \<open>
  The merge rule in the words of the specification: the prefixes met while unwrapping
  through the chain of wrappers, from the outside in; the terminal, which is the first
  value that is not a wrapper; and the merged prefix, which drops the empty prefixes and
  puts one joiner between each two that remain.
\<close>

fun spec_chain_prefixes :: "error \<Rightarrow> string list" where
  "spec_chain_prefixes (ErrWrapperPtr (ErrWrapper e m p j)) = p # spec_chain_prefixes e"
| "spec_chain_prefixes e = []"

fun spec_terminal :: "error \<Rightarrow> error" where
  "spec_terminal (ErrWrapperPtr (ErrWrapper e m p j)) = spec_terminal e"
| "spec_terminal e = e"

fun spec_join :: "char \<Rightarrow> string list \<Rightarrow> string" where
  "spec_join c [] = []"
| "spec_join c [p] = p"
| "spec_join c (p # q # ps) = p @ [c] @ spec_join c (q # ps)"

definition spec_merged_prefix :: "char \<Rightarrow> string list \<Rightarrow> string" where
  "spec_merged_prefix c ps = spec_join c (filter (\<lambda>p. p \<noteq> []) ps)"



text \<open>
  The prefix an error value shows: the \<open>prefix\<close> field when it is a wrapper, nothing
  otherwise.
\<close>

fun own_prefix :: "error \<Rightarrow> string" where
  "own_prefix (ErrWrapperPtr w) = prefix w"
| "own_prefix e = []"



text \<open>
  Walking a chain: the number of wrappers above the terminal, and \<open>Unwrap\<close> applied
  \<open>n\<close> times in a row. Only a wrapper has the method, so a step from any other value
  is \<open>None\<close>.
\<close>

fun chain_depth :: "error \<Rightarrow> nat" where
  "chain_depth (ErrWrapperPtr (ErrWrapper e m p j)) = Suc (chain_depth e)"
| "chain_depth e = 0"

fun unwrap_times :: "nat \<Rightarrow> error \<Rightarrow> error option" where
  "unwrap_times 0 e = Some e"
| "unwrap_times (Suc n) (ErrWrapperPtr w) = unwrap_times n (Unwrap w)"
| "unwrap_times (Suc n) e = None"

text \<open>A raw error (an \<open>errorString\<close>) or nil.\<close>

fun is_raw_or_nil :: "error \<Rightarrow> bool" where
  "is_raw_or_nil Nil = True"
| "is_raw_or_nil (ErrorString s) = True"
| "is_raw_or_nil e = False"

text \<open>
  The error values a caller of the package can hold: nil, errors of its own, what
  \<open>NewError\<close> and \<open>NewErrorString\<close> return for any receiver and any message
  arguments, and what \<open>Unwrap\<close> returns on a wrapper it holds. The factory that
  \<open>New\<close> returns is a \<open>*errWrapper\<close> too, with a nil \<open>err\<close> field, and the type
  assertion \<open>New(...).(error)\<close> succeeds: with \<open>b\<close> true the factories count among
  the error values, with \<open>b\<close> false no factory is ever used as an error.
\<close>

inductive obtainable :: "bool \<Rightarrow> error \<Rightarrow> bool" for b :: bool where
  obtainable_Nil: "obtainable b Nil"
| obtainable_Foreign: "obtainable b (Foreign t a)"
| obtainable_New: "b \<Longrightarrow> obtainable b (ErrWrapperPtr (New j pfx))"
| obtainable_NewError: "obtainable b e \<Longrightarrow> obtainable b (NewError ew e ms)"
| obtainable_NewErrorString: "obtainable b (NewErrorString ew errStr ms)"
| obtainable_Unwrap: "obtainable b (ErrWrapperPtr w) \<Longrightarrow> obtainable b (Unwrap w)"

text \<open>A wrapper whose inner error is not a wrapper.\<close>

fun shallow_wrapper :: "error \<Rightarrow> bool" where
  "shallow_wrapper (ErrWrapperPtr w) = (\<not> is_errWrapper (err w))"
| "shallow_wrapper e = False"

text \<open>A wrapper whose inner error is present and is not a wrapper.\<close>

fun flat_wrapper :: "error \<Rightarrow> bool" where
  "flat_wrapper (ErrWrapperPtr w) = (err w \<noteq> Nil \<and> \<not> is_errWrapper (err w))"
| "flat_wrapper e = False"

section \<open>Bytes the code writes\<close>

lemma byte_char_2E: "byte_char 0x2E = CHR ''.''"
  by code_simp

lemma byte_char_2D: "byte_char 0x2D = CHR ''-''"
  by code_simp

lemma byte_char_2F: "byte_char 0x2F = CHR ''/''"
  by code_simp

lemma byte_char_5B: "byte_char 0x5B = CHR ''[''"
  by code_simp

lemma byte_char_5D: "byte_char 0x5D = CHR '']''"
  by code_simp

lemma byte_char_20: "byte_char 0x20 = CHR '' ''"
  by code_simp

section \<open>Factories\<close>

lemma New_fields:
  "prefix (New j pfx) = first_or_empty pfx"
  "errJoiner (New j pfx) = (if j = 0 then 0x2E else j)"
  by (cases pfx; simp add: New_def Let_def defaultErrJoiner_def)+

text \<open>
  Claim C6. A factory created with the zero joiner byte gets the default joiner \<open>'.'\<close>
  (0x2E), and an omitted prefix is the empty string. A wrapper made by \<open>NewError\<close>
  carries the joiner of the factory. A wrapper made by \<open>NewErrorString\<close> does not:
  its \<open>errJoiner\<close> is the zero byte, whatever the factory's joiner is; for the factory
  \<open>New(0, "svc")\<close>, whose joiner is \<open>'.'\<close>, \<open>NewErrorString("disk full", "io")\<close>
  returns a wrapper with joiner 0.
\<close>

theorem C6_NewErrorString_joiner:
  "errJoiner (New 0 pfx) = 0x2E
   \<and> prefix (New j []) = []
   \<and> map_option errJoiner (as_errWrapper (NewError ew e ms))
       = (if e = Nil then None else Some (errJoiner ew))
   \<and> map_option errJoiner (as_errWrapper (NewErrorString ew errStr ms))
       = (if errStr = [] then None else Some 0)
   \<and> errJoiner (New 0 [''svc'']) = 0x2E
   \<and> NewErrorString (New 0 [''svc'']) ''disk full'' [''io'']
       = ErrWrapperPtr (ErrWrapper (ErrorString ''disk full'') ''io'' ''svc'' 0)"
  by (simp add: NewError_def NewErrorString_def New_fields split: prod.split)

section \<open>Rendering\<close>

lemma Error_spec_render: "Error (ErrWrapper e m p j) = spec_render p m (error_Error e)"
  by (cases e)
    (simp_all add: spec_render_def defaultMsgJoiner_def Let_def
      byte_char_5B byte_char_5D byte_char_20)

text \<open>
  Claim C2. Rendering a wrapped error gives exactly the prefix followed by \<open>": "\<close> when
  the prefix is not empty, then \<open>"[" + message + "]"\<close> when the message is not empty,
  then the inner error's own rendered string when an inner error is present, preceded by
  one space if a message was written; absent sections write nothing. For the factory
  \<open>New('.', "svc")\<close>, \<open>NewErrorString("disk full", "io")\<close> renders as
  \<open>"svc: [io] disk full"\<close>.
\<close>

theorem C2_render_format:
  "Error ew = spec_render (prefix ew) (msg ew) (error_Error (err ew))
   \<and> error_Error (NewErrorString (New 0x2E [''svc'']) ''disk full'' [''io''])
       = Some ''svc: [io] disk full''"
proof
  show "Error ew = spec_render (prefix ew) (msg ew) (error_Error (err ew))"
    by (cases ew) (simp only: Error_spec_render errWrapper.sel)
  show "error_Error (NewErrorString (New 0x2E [''svc'']) ''disk full'' [''io''])
          = Some ''svc: [io] disk full''"
    by (simp add: NewErrorString_def New_fields Error_spec_render spec_render_def
        del: Error.simps)
qed

section \<open>No error in, no error out\<close>

text \<open>
  Claim C4. For every factory, \<open>NewError\<close> applied to the nil error returns nil, and
  \<open>NewErrorString\<close> applied to the empty string returns nil, whatever message is or
  is not given: no error value is made up in these cases.
\<close>

theorem C4_nil_propagates:
  "NewError ew Nil ms = Nil \<and> NewErrorString ew [] ms = Nil"
  by (simp add: NewError_def NewErrorString_def)

section \<open>Merging prefixes\<close>

lemma spec_join_empty_iff:
  "\<forall>p \<in> set ps. p \<noteq> [] \<Longrightarrow> spec_join c ps = [] \<longleftrightarrow> ps = []"
  by (induction c ps rule: spec_join.induct) simp_all

lemma spec_join_Cons:
  "spec_join c (p # ps) = (if ps = [] then p else p @ [c] @ spec_join c ps)"
  by (cases ps) simp_all

lemma spec_merged_prefix_Nil: "spec_merged_prefix c [] = []"
  by (simp add: spec_merged_prefix_def)

lemma spec_merged_prefix_Cons:
  "spec_merged_prefix c (p # ps) =
     p @ (if p \<noteq> [] \<and> spec_merged_prefix c ps \<noteq> [] then [c] else [])
       @ spec_merged_prefix c ps"
  by (simp add: spec_merged_prefix_def spec_join_Cons spec_join_empty_iff)

text \<open>
  The recursion of the code computes the merged prefix and the terminal of the
  specification; the joiner of a node plays no part in either.
\<close>

lemma unwrapRecursively_spec:
  "unwrapRecursively e joiner =
     (spec_merged_prefix (byte_char joiner) (spec_chain_prefixes e), spec_terminal e)"
  by (induction e joiner rule: unwrapRecursively.induct)
    (simp_all add: spec_merged_prefix_Cons spec_merged_prefix_Nil)

lemma spec_terminal_not_wrapper: "\<not> is_errWrapper (spec_terminal e)"
  by (induction e rule: spec_terminal.induct) simp_all

lemma spec_terminal_id: "\<not> is_errWrapper e \<Longrightarrow> spec_terminal e = e"
  by (cases e) simp_all

text \<open>
  Claim C1. For every factory and every error \<open>e\<close> that is not nil, \<open>NewError\<close>
  returns one wrapper: its prefix is the factory's prefix and the prefixes found by
  unwrapping through the chain of nested wrappers, from the outside in, with the empty
  ones left out and the factory's joiner between each two that remain; its inner error
  is the terminal of the chain, the first value that is not a wrapper (possibly nil); its
  message is the message argument of this call, so the messages of the nested wrappers
  are gone; its joiner is the factory's. When \<open>e\<close> is a wrapper with prefix \<open>p2\<close>
  around a value that is not a wrapper, the prefix of the result is
  \<open>p1 + j + p2\<close> when both are non-empty, \<open>p1\<close> when \<open>p2\<close> is empty, \<open>p2\<close> when
  \<open>p1\<close> is empty, and empty when both are.
\<close>

theorem C1_merge:
  "e \<noteq> Nil \<Longrightarrow>
     NewError ew e ms =
       ErrWrapperPtr
         (ErrWrapper (spec_terminal e) (first_or_empty ms)
            (spec_merged_prefix (byte_char (errJoiner ew))
               (prefix ew # spec_chain_prefixes e))
            (errJoiner ew))
     \<and> \<not> is_errWrapper (spec_terminal e)
     \<and> (\<forall>t m p2 j2.
          e = ErrWrapperPtr (ErrWrapper t m p2 j2) \<and> \<not> is_errWrapper t \<longrightarrow>
          NewError ew e ms =
            ErrWrapperPtr
              (ErrWrapper t (first_or_empty ms)
                 (if prefix ew \<noteq> [] \<and> p2 \<noteq> []
                  then prefix ew @ [byte_char (errJoiner ew)] @ p2
                  else if p2 = [] then prefix ew else p2)
                 (errJoiner ew)))"
proof (intro conjI allI impI)
  assume ne: "e \<noteq> Nil"
  show "NewError ew e ms =
       ErrWrapperPtr
         (ErrWrapper (spec_terminal e) (first_or_empty ms)
            (spec_merged_prefix (byte_char (errJoiner ew))
               (prefix ew # spec_chain_prefixes e))
            (errJoiner ew))"
    using ne by (simp add: NewError_def unwrapRecursively_spec spec_merged_prefix_Cons)
  show "\<not> is_errWrapper (spec_terminal e)"
    by (rule spec_terminal_not_wrapper)
  fix t m p2 j2
  assume h: "e = ErrWrapperPtr (ErrWrapper t m p2 j2) \<and> \<not> is_errWrapper t"
  then have "unwrapRecursively t (errJoiner ew) = ([], t)"
    by (cases t) simp_all
  with h show "NewError ew e ms =
            ErrWrapperPtr
              (ErrWrapper t (first_or_empty ms)
                 (if prefix ew \<noteq> [] \<and> p2 \<noteq> []
                  then prefix ew @ [byte_char (errJoiner ew)] @ p2
                  else if p2 = [] then prefix ew else p2)
                 (errJoiner ew))"
    by (simp add: NewError_def)
qed

theorem C1_merge_witness:
  "ErrWrapperPtr
     (ErrWrapper (ErrWrapperPtr (ErrWrapper (Foreign ''EOF'' False) ''io'' ''svc'' 0))
        ''mid'' [] 0x2D) \<noteq> Nil
   \<and> NewError (New 0x2E [''api''])
       (ErrWrapperPtr
          (ErrWrapper (ErrWrapperPtr (ErrWrapper (Foreign ''EOF'' False) ''io'' ''svc'' 0))
             ''mid'' [] 0x2D))
       [''retry'']
     = ErrWrapperPtr (ErrWrapper (Foreign ''EOF'' False) ''retry'' ''api.svc'' 0x2E)
   \<and> ErrWrapperPtr (ErrWrapper (ErrorString ''disk full'') ''io'' ''svc'' 0) \<noteq> Nil
   \<and> \<not> is_errWrapper (ErrorString ''disk full'')
   \<and> NewError (New 0x2D [''db''])
       (ErrWrapperPtr (ErrWrapper (ErrorString ''disk full'') ''io'' ''svc'' 0)) []
     = ErrWrapperPtr (ErrWrapper (ErrorString ''disk full'') [] ''db-svc'' 0x2D)"
  using
    C1_merge [of "ErrWrapperPtr
        (ErrWrapper (ErrWrapperPtr (ErrWrapper (Foreign ''EOF'' False) ''io'' ''svc'' 0))
           ''mid'' [] 0x2D)" "New 0x2E [''api'']" "[''retry'']"]
    C1_merge [of "ErrWrapperPtr (ErrWrapper (ErrorString ''disk full'') ''io'' ''svc'' 0)"
      "New 0x2D [''db'']" "[]"]
  by (simp add: New_fields spec_merged_prefix_def byte_char_2E byte_char_2D)

text \<open>
  The scenario of the specification, evaluated: the factory \<open>New('.', "api")\<close> wraps
  what \<open>New('.', "svc").NewErrorString("disk full", "io")\<close> returned. The display
  string is not \<open>"svc.api: [retry] disk full"\<close>.
\<close>

theorem C3_scenario_counterexample:
  "error_Error
     (NewError (New 0x2E [''api''])
        (NewErrorString (New 0x2E [''svc'']) ''disk full'' [''io'']) [''retry''])
   \<noteq> Some ''svc.api: [retry] disk full''"
  by (simp add: NewError_def NewErrorString_def New_fields Error_spec_render spec_render_def
      byte_char_2E del: Error.simps)

text \<open>
  Claim C3, as amended. With \<open>e1 = New('.', "svc").NewErrorString("disk full", "io")\<close>
  and \<open>e2 = New('.', "api").NewError(e1, "retry")\<close>, the display string of \<open>e2\<close> is
  \<open>"api.svc: [retry] disk full"\<close>: the prefix of the outer factory comes first, the
  annotation \<open>[io]\<close> of the inner wrapper is dropped, and of the inner error only the
  text of its terminal raw error is kept.
\<close>

theorem C3_scenario_outer_first:
  "NewErrorString (New 0x2E [''svc'']) ''disk full'' [''io'']
     = ErrWrapperPtr (ErrWrapper (ErrorString ''disk full'') ''io'' ''svc'' 0)
   \<and> NewError (New 0x2E [''api''])
        (NewErrorString (New 0x2E [''svc'']) ''disk full'' [''io'']) [''retry'']
     = ErrWrapperPtr (ErrWrapper (ErrorString ''disk full'') ''retry'' ''api.svc'' 0x2E)
   \<and> error_Error
        (NewError (New 0x2E [''api''])
           (NewErrorString (New 0x2E [''svc'']) ''disk full'' [''io'']) [''retry''])
     = Some ''api.svc: [retry] disk full''"
  by (simp add: NewError_def NewErrorString_def New_fields Error_spec_render spec_render_def
      byte_char_2E del: Error.simps)

text \<open>
  Claim C8. Empty prefixes are transparent in the merge. A factory with the empty prefix
  leaves the flattened prefix of the error it wraps as it is: for \<open>h = New('.', "")\<close>
  and \<open>e1 = New('.', "svc").NewErrorString("disk full", "io")\<close>, the prefix of
  \<open>h.NewError(e1)\<close> is \<open>"svc"\<close>. A wrapper with the empty prefix inside a chain
  does not stop the merge: unwrapping it gives what unwrapping its inner error gives, so
  the merge collects every non-empty prefix of the chain and reaches the terminal.
\<close>

theorem C8_empty_prefix_transparent:
  "map_option prefix (as_errWrapper (NewError (ErrWrapper x y [] j) e ms)) =
     (if e = Nil then None else Some (fst (unwrapRecursively e j)))
   \<and> map_option prefix
       (as_errWrapper
          (NewError (New 0x2E [[]])
             (NewErrorString (New 0x2E [''svc'']) ''disk full'' [''io'']) []))
     = Some ''svc''
   \<and> unwrapRecursively (ErrWrapperPtr (ErrWrapper e m [] j')) joiner
       = unwrapRecursively e joiner
   \<and> fst (unwrapRecursively e joiner) =
       spec_join (byte_char joiner) (filter (\<lambda>p. p \<noteq> []) (spec_chain_prefixes e))
   \<and> snd (unwrapRecursively e joiner) = spec_terminal e"
proof (intro conjI)
  show "map_option prefix (as_errWrapper (NewError (ErrWrapper x y [] j) e ms)) =
     (if e = Nil then None else Some (fst (unwrapRecursively e j)))"
    by (simp add: NewError_def split: prod.split)
  show "map_option prefix
       (as_errWrapper
          (NewError (New 0x2E [[]])
             (NewErrorString (New 0x2E [''svc'']) ''disk full'' [''io'']) []))
     = Some ''svc''"
    by (simp add: NewError_def NewErrorString_def New_fields)
  show "unwrapRecursively (ErrWrapperPtr (ErrWrapper e m [] j')) joiner
          = unwrapRecursively e joiner"
    by (simp split: prod.split)
  show "fst (unwrapRecursively e joiner) =
       spec_join (byte_char joiner) (filter (\<lambda>p. p \<noteq> []) (spec_chain_prefixes e))"
    by (simp add: unwrapRecursively_spec spec_merged_prefix_def)
  show "snd (unwrapRecursively e joiner) = spec_terminal e"
    by (simp add: unwrapRecursively_spec)
qed

section \<open>Walking a chain\<close>

text \<open>
  A wrapper around an error of the caller's own: one \<open>Unwrap\<close> reaches the terminal,
  which is neither a raw error nor nil.
\<close>

theorem C7_terminal_counterexample:
  "chain_depth (NewError (New 0x2E [''svc'']) (Foreign ''EOF'' False) []) = 1
   \<and> unwrap_times 1 (NewError (New 0x2E [''svc'']) (Foreign ''EOF'' False) [])
       = Some (Foreign ''EOF'' False)
   \<and> \<not> is_raw_or_nil (Foreign ''EOF'' False)"
  by (simp add: NewError_def New_fields Unwrap_def)

lemma unwrap_times_depth: "unwrap_times (chain_depth e) e = Some (spec_terminal e)"
  by (induction e rule: chain_depth.induct) (simp_all add: Unwrap_def)

lemma unwrap_times_below:
  "k < chain_depth e \<Longrightarrow> \<exists>w. unwrap_times k e = Some (ErrWrapperPtr w)"
proof (induction k e rule: unwrap_times.induct)
  case (1 e)
  then show ?case by (cases e) simp_all
next
  case (2 n w)
  then show ?case by (cases w) (simp add: Unwrap_def)
qed simp_all

lemma unwrap_times_above:
  "chain_depth e < k \<Longrightarrow> unwrap_times k e = None"
proof (induction k e rule: unwrap_times.induct)
  case (2 n w)
  then show ?case by (cases w) (simp add: Unwrap_def)
qed simp_all

lemma terminal_cases:
  "\<not> is_errWrapper e \<Longrightarrow> is_raw_or_nil e \<or> (\<exists>t a. e = Foreign t a)"
  by (cases e) simp_all

text \<open>
  Claim C7, as amended. \<open>Unwrap\<close> on a wrapper returns exactly its inner field, one
  level only. Applied repeatedly to an error value, it reaches the terminal of the chain
  after exactly as many steps as the chain has wrappers: every earlier step yields a
  wrapper, and no further step is possible. The terminal is not a wrapper: it is a raw
  error, nil, or a foreign error. Error values are finite, so a chain has no cycle.
\<close>

theorem C7_unwrap_chain:
  "Unwrap ew = err ew
   \<and> unwrap_times (chain_depth e) e = Some (spec_terminal e)
   \<and> \<not> is_errWrapper (spec_terminal e)
   \<and> (is_raw_or_nil (spec_terminal e) \<or> (\<exists>t a. spec_terminal e = Foreign t a))
   \<and> (\<forall>k < chain_depth e. \<exists>w. unwrap_times k e = Some (ErrWrapperPtr w))
   \<and> (\<forall>k > chain_depth e. unwrap_times k e = None)"
  using terminal_cases [OF spec_terminal_not_wrapper [of e]]
  by (simp add: Unwrap_def unwrap_times_depth spec_terminal_not_wrapper
      unwrap_times_below unwrap_times_above)

theorem C7_unwrap_chain_witness:
  "Unwrap (ErrWrapper (ErrorString ''x'') [] ''b'' 0x2E) = ErrorString ''x''
   \<and> unwrap_times 2
       (ErrWrapperPtr
          (ErrWrapper (ErrWrapperPtr (ErrWrapper (ErrorString ''x'') [] ''b'' 0x2E))
             ''m'' ''a'' 0x2E))
     = Some (ErrorString ''x'')
   \<and> unwrap_times 1
       (ErrWrapperPtr
          (ErrWrapper (ErrWrapperPtr (ErrWrapper (ErrorString ''x'') [] ''b'' 0x2E))
             ''m'' ''a'' 0x2E))
     = Some (ErrWrapperPtr (ErrWrapper (ErrorString ''x'') [] ''b'' 0x2E))
   \<and> unwrap_times 3
       (ErrWrapperPtr
          (ErrWrapper (ErrWrapperPtr (ErrWrapper (ErrorString ''x'') [] ''b'' 0x2E))
             ''m'' ''a'' 0x2E))
     = None"
  using C7_unwrap_chain [of "ErrWrapper (ErrorString ''x'') [] ''b'' 0x2E"
      "ErrWrapperPtr
         (ErrWrapper (ErrWrapperPtr (ErrWrapper (ErrorString ''x'') [] ''b'' 0x2E))
            ''m'' ''a'' 0x2E)"]
  by (simp add: Unwrap_def numeral_2_eq_2 numeral_3_eq_3)

section \<open>What the public operations produce\<close>


lemma spec_terminal_shallow:
  "shallow_wrapper (ErrWrapperPtr w) \<Longrightarrow> spec_terminal (ErrWrapperPtr w) = err w"
  by (cases w) (simp add: spec_terminal_id)

lemma shallow_wrapper_NewError: "e \<noteq> Nil \<Longrightarrow> shallow_wrapper (NewError ew e ms)"
  by (simp add: NewError_def unwrapRecursively_spec spec_terminal_not_wrapper)

lemma flat_wrapper_NewError:
  "e \<noteq> Nil \<Longrightarrow> flat_wrapper (NewError ew e ms) \<longleftrightarrow> spec_terminal e \<noteq> Nil"
  by (simp add: NewError_def unwrapRecursively_spec spec_terminal_not_wrapper)

lemma flat_wrapper_NewErrorString:
  "errStr \<noteq> [] \<Longrightarrow> flat_wrapper (NewErrorString ew errStr ms)"
  by (simp add: NewErrorString_def)

lemma chain_depth_shallow: "shallow_wrapper e \<Longrightarrow> chain_depth e = 1"
proof (cases e)
  case (ErrWrapperPtr w)
  assume "shallow_wrapper e"
  with ErrWrapperPtr show ?thesis
    by (cases w; cases "err w") simp_all
qed simp_all

lemma flat_wrapper_shallow: "flat_wrapper e \<Longrightarrow> shallow_wrapper e"
  by (cases e) simp_all


text \<open>
  When no factory is used as an error, the inner error of such a wrapper is present as
  well: the terminal of a flat wrapper is its inner error, which is not nil.
\<close>

lemma obtainable_flat: "obtainable False e \<Longrightarrow> is_errWrapper e \<Longrightarrow> flat_wrapper e"
proof (induction rule: obtainable.induct)
  case (obtainable_NewError e ew ms)
  show ?case
  proof (cases e)
    case Nil
    with obtainable_NewError.prems show ?thesis by (simp add: NewError_def)
  next
    case (ErrWrapperPtr w)
    with obtainable_NewError.IH have "flat_wrapper (ErrWrapperPtr w)" by simp
    then have "spec_terminal e \<noteq> Nil"
      using ErrWrapperPtr by (simp add: spec_terminal_shallow)
    with ErrWrapperPtr show ?thesis by (simp add: flat_wrapper_NewError)
  qed (simp_all add: flat_wrapper_NewError)
next
  case (obtainable_NewErrorString ew errStr ms)
  then show ?case
    by (cases "errStr = []") (simp_all add: NewErrorString_def)
next
  case (obtainable_Unwrap w)
  then show ?case by (simp add: Unwrap_def)
qed simp_all

lemma obtainable_terminal:
  "obtainable False e \<Longrightarrow> e \<noteq> Nil \<Longrightarrow> spec_terminal e \<noteq> Nil"
proof (cases e)
  case (ErrWrapperPtr w)
  assume "obtainable False e"
  with ErrWrapperPtr have "flat_wrapper (ErrWrapperPtr w)"
    by (intro obtainable_flat) simp_all
  with ErrWrapperPtr show ?thesis by (simp add: spec_terminal_shallow)
qed simp_all

text \<open>
  A factory held as an error, wrapped by another factory: the result is not nil and its
  inner error is nil.
\<close>

theorem C9_factory_counterexample:
  "ErrWrapperPtr (New 0x2E [''svc'']) \<noteq> Nil
   \<and> NewError (New 0x2E [''api'']) (ErrWrapperPtr (New 0x2E [''svc''])) [''retry'']
       = ErrWrapperPtr (ErrWrapper Nil ''retry'' ''api.svc'' 0x2E)
   \<and> \<not> flat_wrapper
         (NewError (New 0x2E [''api'']) (ErrWrapperPtr (New 0x2E [''svc''])) [''retry''])"
  by (simp add: NewError_def New_def Let_def defaultErrJoiner_def byte_char_2E)

text \<open>
  Claim C9, as amended. In the recursive variant, every error that is not nil and that
  the public operations produce (\<open>NewError\<close> on an argument that is not nil,
  \<open>NewErrorString\<close> on a string that is not empty, for any receiver, and with
  earlier results wrapped again any number of times) is a wrapper whose inner error is
  not a wrapper: the chain it heads has depth exactly one. Its inner error is the
  terminal of the argument. That is never nil as long as no factory returned by
  \<open>New\<close> is itself used as an error value; a factory is a wrapper with a nil inner
  error, and wrapping it gives a wrapper with a nil inner error.
\<close>

theorem C9_depth_one:
  "obtainable b e \<Longrightarrow>
     (e \<noteq> Nil \<longrightarrow>
        shallow_wrapper (NewError ew e ms)
        \<and> chain_depth (NewError ew e ms) = 1
        \<and> (flat_wrapper (NewError ew e ms) \<longleftrightarrow> spec_terminal e \<noteq> Nil)
        \<and> (\<not> b \<longrightarrow> flat_wrapper (NewError ew e ms)))
     \<and> (errStr \<noteq> [] \<longrightarrow>
        flat_wrapper (NewErrorString ew errStr ms)
        \<and> chain_depth (NewErrorString ew errStr ms) = 1)"
proof (intro conjI impI)
  assume ob: "obtainable b e"
  {
    assume ne: "e \<noteq> Nil"
    show "shallow_wrapper (NewError ew e ms)"
      using ne by (rule shallow_wrapper_NewError)
    then show "chain_depth (NewError ew e ms) = 1"
      by (rule chain_depth_shallow)
    show "flat_wrapper (NewError ew e ms) \<longleftrightarrow> spec_terminal e \<noteq> Nil"
      using ne by (rule flat_wrapper_NewError)
    assume "\<not> b"
    with ob have "obtainable False e" by simp
    then have "spec_terminal e \<noteq> Nil"
      using ne by (rule obtainable_terminal)
    then show "flat_wrapper (NewError ew e ms)"
      using ne by (simp add: flat_wrapper_NewError)
  }
  assume "errStr \<noteq> []"
  then show fl: "flat_wrapper (NewErrorString ew errStr ms)"
    by (rule flat_wrapper_NewErrorString)
  then show "chain_depth (NewErrorString ew errStr ms) = 1"
    by (intro chain_depth_shallow flat_wrapper_shallow)
qed

theorem C9_depth_one_witness:
  "obtainable False
     (NewError (New 0x2D [''db''])
        (NewErrorString (New 0x2E [''svc'']) ''disk full'' [''io'']) [])
   \<and> NewError (New 0x2D [''db''])
        (NewErrorString (New 0x2E [''svc'']) ''disk full'' [''io'']) [] \<noteq> Nil
   \<and> ''x'' \<noteq> []
   \<and> NewError (New 0x2F [''api''])
        (NewError (New 0x2D [''db''])
           (NewErrorString (New 0x2E [''svc'']) ''disk full'' [''io'']) [])
        [''retry'']
     = ErrWrapperPtr (ErrWrapper (ErrorString ''disk full'') ''retry'' ''api/db-svc'' 0x2F)
   \<and> flat_wrapper
       (NewError (New 0x2F [''api''])
          (NewError (New 0x2D [''db''])
             (NewErrorString (New 0x2E [''svc'']) ''disk full'' [''io'']) [])
          [''retry''])
   \<and> flat_wrapper (NewErrorString (New 0x2F [''api'']) ''x'' [''retry''])
   \<and> obtainable True (ErrWrapperPtr (New 0x2E [''svc'']))
   \<and> shallow_wrapper
       (NewError (New 0x2E [''api'']) (ErrWrapperPtr (New 0x2E [''svc''])) [''retry''])
   \<and> chain_depth
       (NewError (New 0x2E [''api'']) (ErrWrapperPtr (New 0x2E [''svc''])) [''retry'']) = 1"
proof -
  have ob: "obtainable False
     (NewError (New 0x2D [''db''])
        (NewErrorString (New 0x2E [''svc'']) ''disk full'' [''io'']) [])"
    by (intro obtainable_NewError obtainable_NewErrorString)
  have ev: "NewError (New 0x2F [''api''])
        (NewError (New 0x2D [''db''])
           (NewErrorString (New 0x2E [''svc'']) ''disk full'' [''io'']) [])
        [''retry'']
     = ErrWrapperPtr (ErrWrapper (ErrorString ''disk full'') ''retry'' ''api/db-svc'' 0x2F)"
    by (simp add: NewError_def NewErrorString_def New_fields byte_char_2F byte_char_2D)
  have ne: "NewError (New 0x2D [''db''])
        (NewErrorString (New 0x2E [''svc'']) ''disk full'' [''io'']) [] \<noteq> Nil"
    by (simp add: NewError_def NewErrorString_def)
  have obf: "obtainable True (ErrWrapperPtr (New 0x2E [''svc'']))"
    by (rule obtainable_New) simp
  from C9_depth_one [OF ob, where ew = "New 0x2F [''api'']" and ms = "[''retry'']"
      and errStr = "''x''"]
    C9_depth_one [OF obf, where ew = "New 0x2E [''api'']" and ms = "[''retry'']"
      and errStr = "''x''"]
    ob ev ne obf
  show ?thesis by simp
qed

section \<open>Joiners along a chain\<close>

lemma own_prefix_leaf: "\<not> is_errWrapper e \<Longrightarrow> own_prefix e = []"
  by (cases e) simp_all











section \<open>The three variants on an error that is not a wrapper\<close>

lemma as_errWrapper_None: "\<not> is_errWrapper e \<Longrightarrow> as_errWrapper e = None"
  by (cases e) simp_all

lemma NewError_v1_leaf:
  "\<not> is_errWrapper e \<Longrightarrow> NewError_v1 ew m e = ErrWrapperPtr (ErrWrapper e m (prefix ew) 0)"
  by (simp add: NewError_v1_def Let_def as_errWrapper_None)

lemma NewError_part_000_leaf:
  "\<not> is_errWrapper e \<Longrightarrow>
     NewError_part_000 ew e ms = ErrWrapperPtr (ErrWrapper e (first_or_empty ms) (prefix ew) 0)"
  by (simp add: NewError_part_000_def Let_def as_errWrapper_None)

lemma NewError_leaf:
  "e \<noteq> Nil \<Longrightarrow> \<not> is_errWrapper e \<Longrightarrow>
     NewError ew e ms =
       ErrWrapperPtr (ErrWrapper e (first_or_empty ms) (prefix ew) (errJoiner ew))"
  by (cases e) (simp_all add: NewError_def)

text \<open>
  Claim C10. For every error \<open>e\<close> that is not nil and not a wrapper, every message
  \<open>m\<close>, and factories built by \<open>New\<close> from the same joiner and prefix, the wrap
  operations of the three variants agree on the display string: \<open>NewError(m, e)\<close> of
  v1, \<open>NewError(e, m)\<close> of part\_000 and \<open>NewError(e, m)\<close> of part\_001 return
  errors whose \<open>Error()\<close> strings are the same, namely the rendering of the factory's
  prefix, \<open>m\<close> and \<open>e\<close>.
\<close>

theorem C10_variants_agree:
  "e \<noteq> Nil \<Longrightarrow> \<not> is_errWrapper e \<Longrightarrow>
     error_Error (NewError_v1 (New j pfx) m e) = error_Error (NewError (New j pfx) e [m])
     \<and> error_Error (NewError_part_000 (New j pfx) e [m])
         = error_Error (NewError (New j pfx) e [m])
     \<and> error_Error (NewError (New j pfx) e [m])
         = Some (spec_render (first_or_empty pfx) m (error_Error e))"
  by (simp add: NewError_v1_leaf NewError_part_000_leaf NewError_leaf Error_spec_render
      New_fields del: Error.simps)

theorem C10_variants_agree_witness:
  "Foreign ''EOF'' True \<noteq> Nil \<and> \<not> is_errWrapper (Foreign ''EOF'' True)
   \<and> error_Error (NewError_v1 (New 0x2E [''svc'']) ''read'' (Foreign ''EOF'' True))
       = Some ''svc: [read] EOF''
   \<and> error_Error (NewError_part_000 (New 0x2E [''svc'']) (Foreign ''EOF'' True) [''read''])
       = Some ''svc: [read] EOF''
   \<and> error_Error (NewError (New 0x2E [''svc'']) (Foreign ''EOF'' True) [''read''])
       = Some ''svc: [read] EOF''"
  using C10_variants_agree [of "Foreign ''EOF'' True" "0x2E" "[''svc'']" "''read''"]
  by (simp add: spec_render_def)

end
